theory Spec2Isabelle
  imports Main
begin

section \<open>Subscription reconciliation of atlas-server (index.js)\<close>

text \<open>
  The server links a Stripe subscription to a wallet address. Three pieces of
  index.js are embedded here: the webhook route with its two handlers
  (\<open>handleSubscriptionCreated\<close>, \<open>handleSubscriptionCancelled\<close>) and the route
  \<open>GET /api/subscription-status/:walletAddress\<close>. The PostgreSQL tables are lists of
  rows in insertion order; the Stripe client, the clocks and the failures of the
  database connection are fields of an environment record, since index.js only calls
  them.
\<close>

subsection \<open>Objects received from Stripe\<close>

text \<open>
  A metadata object is a list of key/value pairs; a field that is \<open>null\<close> or
  \<open>undefined\<close> is \<open>None\<close>. The event's \<open>type\<close> string selects the branch of the
  \<open>switch\<close> and fixes what \<open>event.data.object\<close> is, so an event is a tagged union.
\<close>

type_synonym metadata = "(string \<times> string) list"

record customer_details =
  email :: "string option"
  details_metadata :: "metadata option"

record session =
  session_id :: string
  session_subscription :: "string option"
  session_metadata :: "metadata option"
  session_customer_details :: "customer_details option"

record stripe_subscription =
  sub_id :: string
  sub_customer :: string
  sub_status :: string
  sub_current_period_end :: "int option"
  sub_metadata :: "metadata option"

datatype event =
    CheckoutSessionCompleted session
  | CustomerSubscriptionDeleted stripe_subscription
  | OtherEvent string

subsection \<open>Tables\<close>

text \<open>
  Columns follow the two \<open>CREATE TABLE\<close> statements. A column without
  \<open>NOT NULL\<close> is an option (\<open>None\<close> is SQL NULL). Timestamps are integers
  (milliseconds since the epoch, the time value of a JavaScript \<open>Date\<close>).
\<close>

record subscription_row =
  row_id :: int
  stripe_customer_id :: string
  stripe_subscription_id :: string
  stripe_session_id :: string
  customer_email :: string
  status :: string
  current_period_end :: "int option"
  created_at :: "int option"
  updated_at :: "int option"

record wallet_row =
  link_id :: int
  subscription_id :: "int option"
  wallet_address :: string
  is_primary :: "bool option"
  link_created_at :: "int option"

record db =
  subscriptions :: "subscription_row list"
  subscription_wallets :: "wallet_row list"
  subscriptions_id_seq :: int
  subscription_wallets_id_seq :: int

subsection \<open>Environment\<close>

datatype statement =
  Begin | InsertSubscription | InsertWallet | Commit | UpdateStatus | SelectActive

datatype error =
  ConnectionError | ProviderError | MissingWalletError | TypeError | PersistenceError

text \<open>
  \<open>js_now\<close> is the value of \<open>new Date()\<close>, \<open>db_now\<close> the value of SQL \<open>NOW()\<close>.
  \<open>tza_utc t\<close> is the offset of local time at the UTC instant \<open>t\<close>, \<open>tza_local t\<close> the
  offset that applies to the local time value \<open>t\<close> (both in milliseconds).
  \<open>stripe_retrieve\<close> is \<open>stripe.subscriptions.retrieve\<close>, \<open>None\<close> when the promise
  rejects. \<open>connect_fails\<close> tells whether \<open>pool.connect()\<close> rejects and \<open>stmt_fails\<close>
  which statements the server rejects for a reason outside the statement itself.
\<close>

record env =
  js_now :: int
  db_now :: int
  tza_utc :: "int \<Rightarrow> int"
  tza_local :: "int \<Rightarrow> int"
  stripe_retrieve :: "string option \<Rightarrow> stripe_subscription option"
  connect_fails :: bool
  stmt_fails :: "statement \<Rightarrow> bool"

subsection \<open>JavaScript values\<close>

text \<open>\<open>!walletAddress\<close>: \<open>undefined\<close> and the empty string are falsy.\<close>

fun falsy :: "string option \<Rightarrow> bool" where
  "falsy None = True"
| "falsy (Some s) = (s = [])"

text \<open>\<open>obj?.wallet_address\<close> for a metadata object that may be missing.\<close>

fun metadata_wallet_address :: "metadata option \<Rightarrow> string option" where
  "metadata_wallet_address None = None"
| "metadata_wallet_address (Some m) = map_of m ''wallet_address''"

text \<open>\<open>session.customer_details?.metadata?.wallet_address\<close>.\<close>

fun details_wallet_address :: "customer_details option \<Rightarrow> string option" where
  "details_wallet_address None = None"
| "details_wallet_address (Some d) = metadata_wallet_address (details_metadata d)"

text \<open>
  A \<open>Date\<close> holds a time value of at most 8.64e15 milliseconds in absolute value;
  beyond that \<open>new Date(v)\<close> is an Invalid Date.
\<close>

datatype date = Date int | InvalidDate

definition new_Date :: "int \<Rightarrow> date" where
  "new_Date v = (if \<bar>v\<bar> \<le> 8640000000000000 then Date v else InvalidDate)"

definition msPerDay :: int where
  "msPerDay = 86400000"

text \<open>
  \<open>d.setDate(d.getDate() + 30)\<close>: the date is moved 30 calendar days ahead in local
  time. The day number of the local time value grows by 30 and the time within the
  day is kept, so the local time value grows by \<open>30 * msPerDay\<close>; the result is
  converted back to UTC with the offset that applies there.
\<close>

definition setDate_plus_30 :: "env \<Rightarrow> int \<Rightarrow> date" where
  "setDate_plus_30 e t =
     (let local = t + tza_utc e t;
          moved = local + 30 * msPerDay
      in new_Date (moved - tza_local e moved))"

text \<open>
  Lines 123-132. The provider's value is a number of seconds or missing; \<open>0\<close> is
  falsy, so it takes the \<open>else\<close> branch like a missing value.
\<close>

definition periodEndDate :: "env \<Rightarrow> int option \<Rightarrow> date" where
  "periodEndDate e currentPeriodEnd =
     (case currentPeriodEnd of
        Some n \<Rightarrow> if n \<noteq> 0 then new_Date (n * 1000) else setDate_plus_30 e (js_now e)
      | None \<Rightarrow> setDate_plus_30 e (js_now e))"

text \<open>Lines 108-114: the value of \<open>walletAddress\<close> before the check of line 118.\<close>

definition walletAddress :: "stripe_subscription \<Rightarrow> session \<Rightarrow> string option" where
  "walletAddress stripeSubscription s =
     (let w1 = metadata_wallet_address (sub_metadata stripeSubscription);
          w2 = (if falsy w1 then metadata_wallet_address (session_metadata s) else w1);
          w3 = (if falsy w2 then details_wallet_address (session_customer_details s) else w2)
      in w3)"

subsection \<open>Statements\<close>

text \<open>
  A value stored in a \<open>VARCHAR(n)\<close> column: a longer string is an error unless the
  excess is spaces only, which are cut off.
\<close>

definition varchar :: "nat \<Rightarrow> string \<Rightarrow> string option" where
  "varchar n s =
     (if length s \<le> n then Some s
      else if list_all (\<lambda>c. c = CHR '' '') (drop n s) then Some (take n s)
      else None)"

text \<open>
  \<open>INSERT INTO subscriptions ... RETURNING id\<close>. The id comes from the sequence,
  which moves on whether or not the row is stored. The row is refused when the
  statement fails for an outside reason, when \<open>customer_email\<close> would be NULL, when a
  string does not fit its column, when the date is invalid or when the id is taken.
  \<open>created_at\<close> and \<open>updated_at\<close> take their default \<open>NOW()\<close>.
\<close>

definition insert_subscription ::
  "env \<Rightarrow> string \<Rightarrow> string \<Rightarrow> string \<Rightarrow> string option \<Rightarrow> string \<Rightarrow> date \<Rightarrow> db
     \<Rightarrow> (error + int) \<times> db" where
  "insert_subscription e customer subscription sess mail stat periodEnd d =
     (let new_id = subscriptions_id_seq d;
          d1 = d\<lparr>subscriptions_id_seq := new_id + 1\<rparr>
      in if stmt_fails e InsertSubscription then (Inl PersistenceError, d1)
         else
           (case (varchar 255 customer, varchar 255 subscription, varchar 255 sess,
                  Option.bind mail (varchar 255), varchar 50 stat, periodEnd) of
              (Some c, Some su, Some se, Some m, Some st, Date t) \<Rightarrow>
                if new_id \<in> row_id ` set (subscriptions d) then (Inl PersistenceError, d1)
                else
                  (Inr new_id,
                   d1\<lparr>subscriptions := subscriptions d @
                        [\<lparr>row_id = new_id, stripe_customer_id = c, stripe_subscription_id = su,
                          stripe_session_id = se, customer_email = m, status = st,
                          current_period_end = Some t, created_at = Some (db_now e),
                          updated_at = Some (db_now e)\<rparr>]\<rparr>)
            | _ \<Rightarrow> (Inl PersistenceError, d1)))"

text \<open>
  \<open>INSERT INTO subscription_wallets\<close>. Refused also when the wallet address
  would be NULL, when the subscription id is not in \<open>subscriptions\<close> (foreign key) or
  when the pair (subscription id, wallet address) is already linked (\<open>UNIQUE\<close>).
\<close>

definition insert_wallet ::
  "env \<Rightarrow> int \<Rightarrow> string option \<Rightarrow> bool \<Rightarrow> db \<Rightarrow> (error + unit) \<times> db" where
  "insert_wallet e dbSubscriptionId wallet primary d =
     (let new_id = subscription_wallets_id_seq d;
          d1 = d\<lparr>subscription_wallets_id_seq := new_id + 1\<rparr>
      in if stmt_fails e InsertWallet then (Inl PersistenceError, d1)
         else
           (case Option.bind wallet (varchar 255) of
              None \<Rightarrow> (Inl PersistenceError, d1)
            | Some w \<Rightarrow>
                if new_id \<in> link_id ` set (subscription_wallets d)
                   \<or> dbSubscriptionId \<notin> row_id ` set (subscriptions d)
                   \<or> list_ex (\<lambda>l. subscription_id l = Some dbSubscriptionId
                                    \<and> wallet_address l = w) (subscription_wallets d)
                then (Inl PersistenceError, d1)
                else
                  (Inr (),
                   d1\<lparr>subscription_wallets := subscription_wallets d @
                        [\<lparr>link_id = new_id, subscription_id = Some dbSubscriptionId,
                          wallet_address = w, is_primary = Some primary,
                          link_created_at = Some (db_now e)\<rparr>]\<rparr>)))"

text \<open>
  \<open>UPDATE subscriptions SET status = 'cancelled', updated_at = NOW()
  WHERE stripe_subscription_id = $1\<close>.
\<close>

definition cancel_row :: "env \<Rightarrow> string \<Rightarrow> subscription_row \<Rightarrow> subscription_row" where
  "cancel_row e ext r =
     (if stripe_subscription_id r = ext
      then r\<lparr>status := ''cancelled'', updated_at := Some (db_now e)\<rparr>
      else r)"

definition update_cancelled :: "env \<Rightarrow> string \<Rightarrow> db \<Rightarrow> db" where
  "update_cancelled e ext d = d\<lparr>subscriptions := map (cancel_row e ext) (subscriptions d)\<rparr>"

text \<open>
  \<open>ORDER BY s.created_at DESC\<close>: \<open>desc_le a b\<close> says that a row created at \<open>a\<close> may
  stand before one created at \<open>b\<close>. NULL sorts first in descending order. Rows with
  equal keys keep their order.
\<close>

fun desc_le :: "int option \<Rightarrow> int option \<Rightarrow> bool" where
  "desc_le None _ = True"
| "desc_le (Some a) None = False"
| "desc_le (Some a) (Some b) = (b \<le> a)"

fun insert_desc :: "subscription_row \<Rightarrow> subscription_row list \<Rightarrow> subscription_row list" where
  "insert_desc x [] = [x]"
| "insert_desc x (y # ys) =
     (if desc_le (created_at x) (created_at y) then x # y # ys else y # insert_desc x ys)"

fun order_by_created_at_desc :: "subscription_row list \<Rightarrow> subscription_row list" where
  "order_by_created_at_desc [] = []"
| "order_by_created_at_desc (x # xs) = insert_desc x (order_by_created_at_desc xs)"

text \<open>
  \<open>FROM subscriptions s INNER JOIN subscription_wallets sw ON s.id = sw.subscription_id
  WHERE sw.wallet_address = $1 AND s.status = 'active'\<close>.
\<close>

definition active_for_wallet :: "db \<Rightarrow> string \<Rightarrow> subscription_row list" where
  "active_for_wallet d wallet =
     concat (map (\<lambda>s. concat (map (\<lambda>sw.
        if subscription_id sw = Some (row_id s) \<and> wallet_address sw = wallet
           \<and> status s = ''active''
        then [s] else []) (subscription_wallets d))) (subscriptions d))"

text \<open>The whole query of lines 205-212, with \<open>LIMIT 1\<close>.\<close>

definition select_active :: "db \<Rightarrow> string \<Rightarrow> subscription_row list" where
  "select_active d wallet = take 1 (order_by_created_at_desc (active_for_wallet d wallet))"

subsection \<open>handleSubscriptionCreated\<close>

text \<open>
  The \<open>try\<close> block of lines 100-169. It returns the outcome and the state the open
  transaction has reached. \<open>session.customer_details.email\<close> is read without \<open>?.\<close>, so
  a missing \<open>customer_details\<close> is a TypeError.
\<close>

definition created_try :: "env \<Rightarrow> session \<Rightarrow> db \<Rightarrow> (error + unit) \<times> db" where
  "created_try e s d =
     (if stmt_fails e Begin then (Inl PersistenceError, d)
      else
        (case stripe_retrieve e (session_subscription s) of
           None \<Rightarrow> (Inl ProviderError, d)
         | Some stripeSubscription \<Rightarrow>
             (let w = walletAddress stripeSubscription s
              in if falsy w then (Inl MissingWalletError, d)
                 else
                   (let periodEnd =
                          periodEndDate e (sub_current_period_end stripeSubscription)
                    in case session_customer_details s of
                         None \<Rightarrow> (Inl TypeError, d)
                       | Some details \<Rightarrow>
                           (case insert_subscription e (sub_customer stripeSubscription)
                                   (sub_id stripeSubscription) (session_id s) (email details)
                                   (sub_status stripeSubscription) periodEnd d of
                              (Inl err, d1) \<Rightarrow> (Inl err, d1)
                            | (Inr dbSubscriptionId, d1) \<Rightarrow>
                                (case insert_wallet e dbSubscriptionId w True d1 of
                                   (Inl err, d2) \<Rightarrow> (Inl err, d2)
                                 | (Inr u, d2) \<Rightarrow>
                                     if stmt_fails e Commit then (Inl PersistenceError, d2)
                                     else (Inr (), d2)))))))"

text \<open>
  \<open>ROLLBACK\<close> puts both tables back to the state before \<open>BEGIN\<close>; sequences are
  not transactional.
\<close>

definition rollback :: "db \<Rightarrow> db \<Rightarrow> db" where
  "rollback committed tx =
     committed\<lparr>subscriptions_id_seq := subscriptions_id_seq tx,
            subscription_wallets_id_seq := subscription_wallets_id_seq tx\<rparr>"

text \<open>
  Lines 97-177: \<open>pool.connect()\<close> is outside the \<open>try\<close>; an error inside is
  rolled back and thrown again.
\<close>

definition handleSubscriptionCreated :: "env \<Rightarrow> session \<Rightarrow> db \<Rightarrow> (error + unit) \<times> db" where
  "handleSubscriptionCreated e s d =
     (if connect_fails e then (Inl ConnectionError, d)
      else
        (case created_try e s d of
           (Inl err, tx) \<Rightarrow> (Inl err, rollback d tx)
         | (Inr u, tx) \<Rightarrow> (Inr u, tx)))"

subsection \<open>handleSubscriptionCancelled\<close>

definition handleSubscriptionCancelled ::
  "env \<Rightarrow> stripe_subscription \<Rightarrow> db \<Rightarrow> (error + unit) \<times> db" where
  "handleSubscriptionCancelled e subscription d =
     (if stmt_fails e UpdateStatus then (Inl PersistenceError, d)
      else (Inr (), update_cancelled e (sub_id subscription) d))"

subsection \<open>POST /stripe-webhook\<close>

text \<open>
  What the route handler does with \<open>res\<close>: \<open>res.sendStatus(400)\<close>,
  \<open>res.json({received: true})\<close>, or nothing because an awaited handler threw and the
  error left the route handler. \<open>constructEvent\<close> is the result of
  \<open>stripe.webhooks.constructEvent\<close>, \<open>None\<close> when it throws. Line 18 registers
  \<open>express.json()\<close> for every route, ahead of this route's \<open>express.raw\<close>; the body
  that \<open>constructEvent\<close> receives is what these parsers leave in \<open>req.body\<close>, and its
  verdict on that body is a parameter here.
\<close>

datatype webhook_outcome = SendStatus nat | JsonReceived bool | Thrown error

fun http_status :: "webhook_outcome \<Rightarrow> nat option" where
  "http_status (SendStatus n) = Some n"
| "http_status (JsonReceived _) = Some 200"
| "http_status (Thrown _) = None"

text \<open>
  Modelled from the spec: the answer of the HTTP framework (Express, which is not
  under src/) to a request whose route handler threw. Section 7 of the spec says
  that the billing provider sees a non-2xx response on any unresolved failure; the
  status taken is 500, the one the other routes of index.js send for an error (lines
  242, 260 and 292). A response that index.js wrote itself is seen as written.
\<close>

fun provider_sees :: "webhook_outcome \<Rightarrow> nat" where
  "provider_sees (SendStatus n) = n"
| "provider_sees (JsonReceived _) = 200"
| "provider_sees (Thrown _) = 500"

text \<open>
  The \<open>switch (event.type)\<close> of lines 78-91: each known type awaits its handler, any
  other type is only logged.
\<close>

definition reconcile :: "env \<Rightarrow> event \<Rightarrow> db \<Rightarrow> (error + unit) \<times> db" where
  "reconcile e ev d =
     (case ev of
        CheckoutSessionCompleted s \<Rightarrow> handleSubscriptionCreated e s d
      | CustomerSubscriptionDeleted subscription \<Rightarrow> handleSubscriptionCancelled e subscription d
      | OtherEvent _ \<Rightarrow> (Inr (), d))"

definition stripe_webhook :: "env \<Rightarrow> event option \<Rightarrow> db \<Rightarrow> webhook_outcome \<times> db" where
  "stripe_webhook e constructEvent d =
     (case constructEvent of
        None \<Rightarrow> (SendStatus 400, d)
      | Some ev \<Rightarrow>
          (case reconcile e ev d of
             (Inl err, d') \<Rightarrow> (Thrown err, d')
           | (Inr u, d') \<Rightarrow> (JsonReceived True, d')))"

subsection \<open>GET /api/subscription-status/:walletAddress\<close>

text \<open>
  The JSON body without its \<open>message\<close> text, which is fixed per branch. A field the
  body does not have is \<open>None\<close>.
\<close>

record status_json =
  hasSubscription :: bool
  json_status :: string
  expiresAt :: "int option"
  customerEmail :: "string option"

datatype api_response = Json200 status_json | Json500

text \<open>\<open>new Date(subscription.current_period_end)\<close>: \<open>new Date(null)\<close> is the epoch.\<close>

fun periodEnd_of :: "int option \<Rightarrow> int" where
  "periodEnd_of None = 0"
| "periodEnd_of (Some t) = t"

definition subscription_status :: "env \<Rightarrow> db \<Rightarrow> string \<Rightarrow> api_response" where
  "subscription_status e d wallet =
     (if stmt_fails e SelectActive then Json500
      else
        (case select_active d wallet of
           subscription # _ \<Rightarrow>
             if periodEnd_of (current_period_end subscription) > js_now e
             then Json200 \<lparr>hasSubscription = True, json_status = ''active'',
                           expiresAt = current_period_end subscription,
                           customerEmail = Some (customer_email subscription)\<rparr>
             else Json200 \<lparr>hasSubscription = False, json_status = ''expired'',
                           expiresAt = None, customerEmail = None\<rparr>
         | [] \<Rightarrow> Json200 \<lparr>hasSubscription = False, json_status = ''none'',
                          expiresAt = None, customerEmail = None\<rparr>))"

subsection \<open>A checkout that goes through\<close>

text \<open>
  The scenario used to run the definitions: session \<open>cs_1\<close> for subscription
  \<open>sub_1\<close>, whose metadata names wallet \<open>0xABC\<close> while the session's own metadata
  names \<open>0xDEF\<close>; \<open>example_db\<close> is the database after that event on empty tables.
\<close>

definition example_subscription :: stripe_subscription where
  "example_subscription =
     \<lparr>sub_id = ''sub_1'', sub_customer = ''cus_1'', sub_status = ''active'',
      sub_current_period_end = Some 1702000000,
      sub_metadata = Some [(''wallet_address'', ''0xABC'')]\<rparr>"

definition example_session :: session where
  "example_session =
     \<lparr>session_id = ''cs_1'', session_subscription = Some ''sub_1'',
      session_metadata = Some [(''wallet_address'', ''0xDEF'')],
      session_customer_details = Some \<lparr>email = Some ''a@b.com'', details_metadata = None\<rparr>\<rparr>"

definition example_env :: env where
  "example_env =
     \<lparr>js_now = 1700000000000, db_now = 1700000000123,
      tza_utc = (\<lambda>t. 3600000), tza_local = (\<lambda>t. 3600000),
      stripe_retrieve = (\<lambda>i. if i = Some ''sub_1'' then Some example_subscription else None),
      connect_fails = False, stmt_fails = (\<lambda>q. False)\<rparr>"

definition empty_db :: db where
  "empty_db =
     \<lparr>subscriptions = [], subscription_wallets = [],
      subscriptions_id_seq = 1, subscription_wallets_id_seq = 1\<rparr>"

definition example_row :: subscription_row where
  "example_row =
     \<lparr>row_id = 1, stripe_customer_id = ''cus_1'', stripe_subscription_id = ''sub_1'',
      stripe_session_id = ''cs_1'', customer_email = ''a@b.com'', status = ''active'',
      current_period_end = Some 1702000000000, created_at = Some 1700000000123,
      updated_at = Some 1700000000123\<rparr>"

definition example_link :: wallet_row where
  "example_link =
     \<lparr>link_id = 1, subscription_id = Some 1, wallet_address = ''0xABC'',
      is_primary = Some True, link_created_at = Some 1700000000123\<rparr>"

definition example_db :: db where
  "example_db =
     \<lparr>subscriptions = [example_row], subscription_wallets = [example_link],
      subscriptions_id_seq = 2, subscription_wallets_id_seq = 2\<rparr>"

text \<open>
  Variants of the example for the three places of a wallet address:
  \<open>session_three_places\<close> has \<open>0xDEF\<close> in its metadata and \<open>0x123\<close> in the metadata of
  its customer details, \<open>session_details_only\<close> has the empty string in its metadata;
  \<open>subscription_tagged\<close> names \<open>0xABC\<close> after another key, \<open>subscription_untagged\<close> has
  no \<open>wallet_address\<close> key.
\<close>

definition details_with_wallet :: customer_details where
  "details_with_wallet =
     \<lparr>email = Some ''a@b.com'',
      details_metadata = Some [(''ref'', ''r1''), (''wallet_address'', ''0x123'')]\<rparr>"

definition session_three_places :: session where
  "session_three_places =
     example_session\<lparr>session_customer_details := Some details_with_wallet\<rparr>"

definition session_details_only :: session where
  "session_details_only =
     session_three_places\<lparr>session_metadata := Some [(''wallet_address'', [])]\<rparr>"

definition subscription_tagged :: stripe_subscription where
  "subscription_tagged =
     example_subscription\<lparr>sub_metadata :=
       Some [(''plan'', ''premium''), (''wallet_address'', ''0xABC'')]\<rparr>"

definition subscription_untagged :: stripe_subscription where
  "subscription_untagged =
     example_subscription\<lparr>sub_metadata := Some [(''plan'', ''premium'')]\<rparr>"

lemmas places_defs =
  details_with_wallet_def session_three_places_def session_details_only_def
  subscription_tagged_def subscription_untagged_def

lemmas example_defs =
  example_subscription_def example_session_def example_env_def empty_db_def
  example_row_def example_link_def example_db_def

lemmas created_defs =
  handleSubscriptionCreated_def created_try_def walletAddress_def periodEndDate_def
  new_Date_def insert_subscription_def insert_wallet_def varchar_def rollback_def
  setDate_plus_30_def msPerDay_def

lemma example_created:
  "handleSubscriptionCreated example_env example_session empty_db = (Inr (), example_db)"
  by (simp add: example_defs created_defs Let_def)

lemma example_retrieve:
  "stripe_retrieve example_env (session_subscription example_session)
     = Some example_subscription"
  by (simp add: example_defs)

section \<open>Properties\<close>

subsection \<open>The two INSERT statements\<close>

lemma insert_subscription_Inr:
  assumes "insert_subscription e c su se m st p d = (Inr i, d1)"
  shows "\<exists>c' su' se' m' ma st' t.
           varchar 255 c = Some c' \<and> varchar 255 su = Some su' \<and> varchar 255 se = Some se'
           \<and> m = Some ma \<and> varchar 255 ma = Some m' \<and> varchar 50 st = Some st' \<and> p = Date t
           \<and> i = subscriptions_id_seq d
           \<and> subscriptions d1 = subscriptions d @
                [\<lparr>row_id = i, stripe_customer_id = c', stripe_subscription_id = su',
                  stripe_session_id = se', customer_email = m', status = st',
                  current_period_end = Some t, created_at = Some (db_now e),
                  updated_at = Some (db_now e)\<rparr>]
           \<and> subscription_wallets d1 = subscription_wallets d"
  using assms
  by (auto simp: insert_subscription_def Let_def Option.bind_eq_Some_conv
           split: if_splits option.splits date.splits)

lemma insert_wallet_Inr:
  assumes "insert_wallet e i w p d = (Inr u, d1)"
  shows "\<exists>wa w'. w = Some wa \<and> varchar 255 wa = Some w'
           \<and> subscription_wallets d1 = subscription_wallets d @
                [\<lparr>link_id = subscription_wallets_id_seq d, subscription_id = Some i,
                  wallet_address = w', is_primary = Some p,
                  link_created_at = Some (db_now e)\<rparr>]
           \<and> subscriptions d1 = subscriptions d"
  using assms
  by (auto simp: insert_wallet_def Let_def Option.bind_eq_Some_conv
           split: if_splits option.splits)

lemma insert_subscription_fault:
  "insert_subscription e c su se m st p d = (Inr i, d1) \<Longrightarrow> \<not> stmt_fails e InsertSubscription"
  by (auto simp: insert_subscription_def Let_def)

lemma insert_wallet_fault:
  "insert_wallet e i w p d = (Inr u, d1) \<Longrightarrow> \<not> stmt_fails e InsertWallet"
  by (auto simp: insert_wallet_def Let_def)

subsection \<open>What a successful checkout has done\<close>

lemma created_try_Inr:
  assumes "created_try e s d = (Inr u, d')"
  shows "\<exists>sub details w t row link.
           stripe_retrieve e (session_subscription s) = Some sub
           \<and> walletAddress sub s = Some w \<and> w \<noteq> []
           \<and> session_customer_details s = Some details
           \<and> periodEndDate e (sub_current_period_end sub) = Date t
           \<and> subscriptions d' = subscriptions d @ [row]
           \<and> subscription_wallets d' = subscription_wallets d @ [link]
           \<and> row_id row = subscriptions_id_seq d
           \<and> current_period_end row = Some t
           \<and> varchar 255 (sub_customer sub) = Some (stripe_customer_id row)
           \<and> varchar 255 (sub_id sub) = Some (stripe_subscription_id row)
           \<and> varchar 255 (session_id s) = Some (stripe_session_id row)
           \<and> Option.bind (email details) (varchar 255) = Some (customer_email row)
           \<and> varchar 50 (sub_status sub) = Some (status row)
           \<and> subscription_id link = Some (row_id row)
           \<and> varchar 255 w = Some (wallet_address link)
           \<and> is_primary link = Some True"
proof -
  from assms obtain sub where sub: "stripe_retrieve e (session_subscription s) = Some sub"
    by (auto simp: created_try_def split: if_splits option.splits)
  from assms sub have nf: "\<not> falsy (walletAddress sub s)"
    by (auto simp: created_try_def Let_def split: if_splits)
  then obtain w where w: "walletAddress sub s = Some w" "w \<noteq> []"
    by (cases "walletAddress sub s") auto
  from assms sub nf obtain details where det: "session_customer_details s = Some details"
    by (auto simp: created_try_def Let_def split: if_splits option.splits)
  from assms sub nf det w obtain i d1 where
    ins1: "insert_subscription e (sub_customer sub) (sub_id sub) (session_id s) (email details)
             (sub_status sub) (periodEndDate e (sub_current_period_end sub)) d = (Inr i, d1)"
    and ins2: "insert_wallet e i (Some w) True d1 = (Inr (), d')"
    by (auto simp: created_try_def Let_def split: if_splits prod.splits sum.splits)
  from insert_subscription_Inr [OF ins1] insert_wallet_Inr [OF ins2] sub w det
  show ?thesis
    by (auto simp: Option.bind_eq_Some_conv)
qed

lemma created_try_insert_fault:
  assumes "created_try e s d = (Inr u, d')"
  shows "\<not> stmt_fails e InsertSubscription \<and> \<not> stmt_fails e InsertWallet"
proof -
  from assms have "\<exists>c su se m st p i d1 w.
      insert_subscription e c su se m st p d = (Inr i, d1)
      \<and> insert_wallet e i w True d1 = (Inr (), d')"
    apply (auto simp: created_try_def Let_def
             split: if_splits option.splits prod.splits sum.splits)
    apply blast
    done
  then show ?thesis
    using insert_subscription_fault insert_wallet_fault by blast
qed

lemma handle_created_Inl:
  assumes "handleSubscriptionCreated e s d = (Inl err, d')"
  shows "subscriptions d' = subscriptions d \<and> subscription_wallets d' = subscription_wallets d"
  using assms
  by (auto simp: handleSubscriptionCreated_def rollback_def
           split: if_splits prod.splits sum.splits)

lemma handle_created_Inr:
  assumes "handleSubscriptionCreated e s d = (Inr u, d')"
  shows "created_try e s d = (Inr u, d') \<and> \<not> connect_fails e"
  using assms
  by (auto simp: handleSubscriptionCreated_def split: if_splits prod.splits sum.splits)

lemma created_try_steps_fail:
  assumes "stmt_fails e Begin \<or> stripe_retrieve e (session_subscription s) = None
           \<or> (\<exists>sub. stripe_retrieve e (session_subscription s) = Some sub
                 \<and> falsy (walletAddress sub s))
           \<or> stmt_fails e InsertSubscription \<or> stmt_fails e InsertWallet
           \<or> stmt_fails e Commit"
  shows "\<exists>err tx. created_try e s d = (Inl err, tx)"
proof (cases "created_try e s d")
  case (Pair r tx)
  show ?thesis
  proof (cases r)
    case (Inl err)
    with Pair show ?thesis by simp
  next
    case (Inr u)
    with Pair have t: "created_try e s d = (Inr u, tx)" by simp
    from created_try_Inr [OF t] created_try_insert_fault [OF t] assms
    have "stmt_fails e Begin \<or> stmt_fails e Commit" by auto
    with t show ?thesis
      by (auto simp: created_try_def Let_def
               split: if_splits option.splits prod.splits sum.splits)
  qed
qed

lemma handle_created_steps_fail:
  assumes "connect_fails e \<or> stmt_fails e Begin
           \<or> stripe_retrieve e (session_subscription s) = None
           \<or> (\<exists>sub. stripe_retrieve e (session_subscription s) = Some sub
                 \<and> falsy (walletAddress sub s))
           \<or> stmt_fails e InsertSubscription \<or> stmt_fails e InsertWallet
           \<or> stmt_fails e Commit"
  shows "\<exists>err d'. handleSubscriptionCreated e s d = (Inl err, d')"
proof (cases "connect_fails e")
  case True
  then show ?thesis by (simp add: handleSubscriptionCreated_def)
next
  case False
  with assms created_try_steps_fail [of e s d] obtain err tx where
    "created_try e s d = (Inl err, tx)" by blast
  with False show ?thesis by (simp add: handleSubscriptionCreated_def)
qed

subsection \<open>Creation is all or nothing\<close>

text \<open>
  Claim C1. When \<open>handleSubscriptionCreated\<close> returns normally, the tables hold
  exactly one more subscription row and exactly one more wallet link than before;
  the link carries the id of the new row and is marked primary, and neither INSERT
  statement failed. When it throws, for whatever reason and so also when either
  INSERT fails, both tables are as they were before: nothing of the transaction
  persists.
\<close>

theorem created_pair_or_nothing:
  "(case handleSubscriptionCreated e s d of
      (Inr u, d') \<Rightarrow>
        (\<exists>row link. subscriptions d' = subscriptions d @ [row]
           \<and> subscription_wallets d' = subscription_wallets d @ [link]
           \<and> subscription_id link = Some (row_id row) \<and> is_primary link = Some True)
        \<and> \<not> stmt_fails e InsertSubscription \<and> \<not> stmt_fails e InsertWallet
    | (Inl err, d') \<Rightarrow>
        subscriptions d' = subscriptions d \<and> subscription_wallets d' = subscription_wallets d)"
proof (cases "handleSubscriptionCreated e s d")
  case (Pair r d')
  show ?thesis
  proof (cases r)
    case (Inl err)
    with Pair handle_created_Inl [of e s d err d'] show ?thesis by simp
  next
    case (Inr u)
    with Pair have h: "handleSubscriptionCreated e s d = (Inr u, d')" by simp
    from handle_created_Inr [OF h] have t: "created_try e s d = (Inr u, d')" by simp
    from created_try_Inr [OF t] obtain row link where
      "subscriptions d' = subscriptions d @ [row]"
      "subscription_wallets d' = subscription_wallets d @ [link]"
      "subscription_id link = Some (row_id row)" "is_primary link = Some True"
      by blast
    moreover note created_try_insert_fault [OF t]
    ultimately show ?thesis using h by auto
  qed
qed

text \<open>
  The example checkout stores its pair of rows; the same checkout with a failing
  second INSERT throws and leaves both tables empty.
\<close>

theorem created_pair_or_nothing_witness:
  "handleSubscriptionCreated example_env example_session empty_db = (Inr (), example_db)
   \<and> (\<exists>row link. subscriptions example_db = subscriptions empty_db @ [row]
         \<and> subscription_wallets example_db = subscription_wallets empty_db @ [link]
         \<and> subscription_id link = Some (row_id row) \<and> is_primary link = Some True)
   \<and> fst (handleSubscriptionCreated (example_env\<lparr>stmt_fails := (\<lambda>q. q = InsertWallet)\<rparr>)
           example_session empty_db) = Inl PersistenceError
   \<and> subscriptions (snd (handleSubscriptionCreated
         (example_env\<lparr>stmt_fails := (\<lambda>q. q = InsertWallet)\<rparr>) example_session empty_db)) = []
   \<and> subscription_wallets (snd (handleSubscriptionCreated
         (example_env\<lparr>stmt_fails := (\<lambda>q. q = InsertWallet)\<rparr>) example_session empty_db)) = []"
proof -
  have f: "handleSubscriptionCreated (example_env\<lparr>stmt_fails := (\<lambda>q. q = InsertWallet)\<rparr>)
             example_session empty_db
           = (Inl PersistenceError,
              empty_db\<lparr>subscriptions_id_seq := 2, subscription_wallets_id_seq := 2\<rparr>)"
    by (simp add: example_defs created_defs Let_def)
  from created_pair_or_nothing [where e = example_env and s = example_session and d = empty_db]
       created_pair_or_nothing
         [where e = "example_env\<lparr>stmt_fails := (\<lambda>q. q = InsertWallet)\<rparr>"
            and s = example_session and d = empty_db]
  show ?thesis
    by (simp add: example_created f) (simp add: empty_db_def)
qed

subsection \<open>Where the wallet address comes from\<close>

lemma metadata_wallet_address_bind:
  "metadata_wallet_address mo = Option.bind mo (\<lambda>m. map_of m ''wallet_address'')"
  by (cases mo) auto

lemma details_wallet_address_bind:
  "details_wallet_address co =
     Option.bind (Option.bind co details_metadata) (\<lambda>m. map_of m ''wallet_address'')"
  by (cases co) (auto simp: metadata_wallet_address_bind)

lemma falsy_iff: "falsy p \<longleftrightarrow> p \<in> {None, Some []}"
  by (cases p) auto

text \<open>
  Claim C3. The wallet address is the value of the key \<open>wallet_address\<close>, looked for in
  the subscription's metadata, then in the session's metadata, then in the metadata of
  the session's customer details. A non-empty value in the subscription's metadata is
  the result for every session, whatever its two places hold. When that value is
  missing or empty, a non-empty value in the session's metadata is the result,
  whatever the customer details hold. When both are missing or empty, the result is
  what the metadata of the customer details holds under the key. The address found
  (cut to the column's width) is the one stored in the new wallet link.
\<close>

theorem wallet_resolution_priority:
  "(Option.bind (sub_metadata sub) (\<lambda>m. map_of m ''wallet_address'') = Some a \<and> a \<noteq> [] \<longrightarrow>
      walletAddress sub s = Some a \<and> walletAddress sub s' = Some a)
   \<and> (Option.bind (sub_metadata sub) (\<lambda>m. map_of m ''wallet_address'') \<in> {None, Some []}
        \<and> Option.bind (session_metadata s) (\<lambda>m. map_of m ''wallet_address'') = Some b
        \<and> b \<noteq> [] \<longrightarrow>
      walletAddress sub s = Some b
      \<and> walletAddress sub (s\<lparr>session_customer_details := c\<rparr>) = Some b)
   \<and> (Option.bind (sub_metadata sub) (\<lambda>m. map_of m ''wallet_address'') \<in> {None, Some []}
        \<and> Option.bind (session_metadata s) (\<lambda>m. map_of m ''wallet_address'')
            \<in> {None, Some []} \<longrightarrow>
      walletAddress sub s =
        Option.bind (Option.bind (session_customer_details s) details_metadata)
          (\<lambda>m. map_of m ''wallet_address''))
   \<and> (stripe_retrieve e (session_subscription s) = Some sub
        \<and> handleSubscriptionCreated e s d = (Inr u, d') \<longrightarrow>
      (\<exists>w link. walletAddress sub s = Some w \<and> w \<noteq> []
         \<and> subscription_wallets d' = subscription_wallets d @ [link]
         \<and> varchar 255 w = Some (wallet_address link)))"
proof -
  have "\<exists>w link. walletAddress sub s = Some w \<and> w \<noteq> []
         \<and> subscription_wallets d' = subscription_wallets d @ [link]
         \<and> varchar 255 w = Some (wallet_address link)"
    if r: "stripe_retrieve e (session_subscription s) = Some sub"
      and h: "handleSubscriptionCreated e s d = (Inr u, d')"
  proof -
    from handle_created_Inr [OF h] have "created_try e s d = (Inr u, d')" by simp
    from created_try_Inr [OF this] r show ?thesis by auto
  qed
  then show ?thesis
    by (auto simp: walletAddress_def Let_def falsy_iff
          metadata_wallet_address_bind details_wallet_address_bind)
qed

text \<open>
  Each place in turn. With \<open>0xABC\<close>, \<open>0xDEF\<close> and \<open>0x123\<close> in the three places the
  result is \<open>0xABC\<close>; without the key in the subscription's metadata it is \<open>0xDEF\<close>; with
  the empty string in the session's metadata as well it is \<open>0x123\<close>, and that is the
  address of the link the checkout stores.
\<close>

theorem wallet_resolution_priority_witness:
  "Option.bind (sub_metadata subscription_tagged) (\<lambda>m. map_of m ''wallet_address'')
     = Some ''0xABC''
   \<and> Option.bind (sub_metadata subscription_untagged) (\<lambda>m. map_of m ''wallet_address'') = None
   \<and> Option.bind (session_metadata session_three_places) (\<lambda>m. map_of m ''wallet_address'')
       = Some ''0xDEF''
   \<and> Option.bind (session_metadata session_details_only) (\<lambda>m. map_of m ''wallet_address'')
       = Some []
   \<and> walletAddress subscription_tagged session_three_places = Some ''0xABC''
   \<and> walletAddress subscription_untagged session_three_places = Some ''0xDEF''
   \<and> walletAddress subscription_untagged session_details_only = Some ''0x123''
   \<and> handleSubscriptionCreated
         (example_env\<lparr>stripe_retrieve := (\<lambda>i. Some subscription_tagged)\<rparr>)
         session_three_places empty_db = (Inr (), example_db)
   \<and> map wallet_address (subscription_wallets example_db) = [''0xABC'']
   \<and> handleSubscriptionCreated
         (example_env\<lparr>stripe_retrieve := (\<lambda>i. Some subscription_untagged)\<rparr>)
         session_details_only empty_db
       = (Inr (), example_db\<lparr>subscription_wallets :=
                    [example_link\<lparr>wallet_address := ''0x123''\<rparr>]\<rparr>)"
proof -
  have p1: "Option.bind (sub_metadata subscription_tagged) (\<lambda>m. map_of m ''wallet_address'')
              = Some ''0xABC''"
    by (simp add: places_defs example_defs)
  have p2: "Option.bind (sub_metadata subscription_untagged) (\<lambda>m. map_of m ''wallet_address'')
              = None"
    by (simp add: places_defs example_defs)
  have p3: "Option.bind (session_metadata session_three_places)
              (\<lambda>m. map_of m ''wallet_address'') = Some ''0xDEF''"
    by (simp add: places_defs example_defs)
  have p4: "Option.bind (session_metadata session_details_only)
              (\<lambda>m. map_of m ''wallet_address'') = Some []"
    by (simp add: places_defs example_defs)
  have g1: "handleSubscriptionCreated
              (example_env\<lparr>stripe_retrieve := (\<lambda>i. Some subscription_tagged)\<rparr>)
              session_three_places empty_db = (Inr (), example_db)"
    by (simp add: places_defs example_defs created_defs Let_def)
  have g3: "handleSubscriptionCreated
              (example_env\<lparr>stripe_retrieve := (\<lambda>i. Some subscription_untagged)\<rparr>)
              session_details_only empty_db
            = (Inr (), example_db\<lparr>subscription_wallets :=
                         [example_link\<lparr>wallet_address := ''0x123''\<rparr>]\<rparr>)"
    by (simp add: places_defs example_defs created_defs Let_def)
  from wallet_resolution_priority
         [where sub = subscription_tagged and s = session_three_places and a = "''0xABC''"
            and s' = session_three_places
            and e = "example_env\<lparr>stripe_retrieve := (\<lambda>i. Some subscription_tagged)\<rparr>"
            and d = empty_db and u = "()" and d' = example_db] p1 g1
  have w1: "walletAddress subscription_tagged session_three_places = Some ''0xABC''"
    by simp
  have m1: "map wallet_address (subscription_wallets example_db) = [''0xABC'']"
    by (simp add: example_defs)
  from wallet_resolution_priority
         [where sub = subscription_untagged and s = session_three_places and b = "''0xDEF''"
            and c = "session_customer_details session_three_places"] p2 p3
  have w2: "walletAddress subscription_untagged session_three_places = Some ''0xDEF''"
    by simp
  from wallet_resolution_priority
         [where sub = subscription_untagged and s = session_details_only] p2 p4
  have w3: "walletAddress subscription_untagged session_details_only = Some ''0x123''"
    by (simp add: places_defs example_defs)
  from p1 p2 p3 p4 w1 m1 w2 w3 g1 g3 show ?thesis by simp
qed

subsection \<open>No wallet, no rows\<close>

text \<open>
  Claim C4. When Stripe returns the subscription and none of the three places holds
  a non-empty wallet address, \<open>handleSubscriptionCreated\<close> throws and both tables stay
  as they were; with the database reachable, the error thrown is the missing-wallet
  error of line 119.
\<close>

theorem no_wallet_aborts:
  assumes "stripe_retrieve e (session_subscription s) = Some sub"
    and "falsy (metadata_wallet_address (sub_metadata sub))"
    and "falsy (metadata_wallet_address (session_metadata s))"
    and "falsy (details_wallet_address (session_customer_details s))"
  shows "\<exists>err d'. handleSubscriptionCreated e s d = (Inl err, d')
           \<and> subscriptions d' = subscriptions d
           \<and> subscription_wallets d' = subscription_wallets d
           \<and> (\<not> connect_fails e \<and> \<not> stmt_fails e Begin \<longrightarrow> err = MissingWalletError)"
  using assms
  by (auto simp: handleSubscriptionCreated_def created_try_def walletAddress_def Let_def
                 rollback_def)

text \<open>
  The example with the wallet taken out of the subscription and an empty session
  metadata object, run on the database that already holds one subscription.
\<close>

theorem no_wallet_aborts_witness:
  "stripe_retrieve
      (example_env\<lparr>stripe_retrieve :=
         (\<lambda>i. Some (example_subscription\<lparr>sub_metadata := None\<rparr>))\<rparr>)
      (session_subscription (example_session\<lparr>session_metadata := Some []\<rparr>))
     = Some (example_subscription\<lparr>sub_metadata := None\<rparr>)
   \<and> falsy (metadata_wallet_address
              (sub_metadata (example_subscription\<lparr>sub_metadata := None\<rparr>)))
   \<and> falsy (metadata_wallet_address
              (session_metadata (example_session\<lparr>session_metadata := Some []\<rparr>)))
   \<and> falsy (details_wallet_address
              (session_customer_details (example_session\<lparr>session_metadata := Some []\<rparr>)))
   \<and> (\<exists>d'. handleSubscriptionCreated
               (example_env\<lparr>stripe_retrieve :=
                  (\<lambda>i. Some (example_subscription\<lparr>sub_metadata := None\<rparr>))\<rparr>)
               (example_session\<lparr>session_metadata := Some []\<rparr>) example_db
             = (Inl MissingWalletError, d')
          \<and> subscriptions d' = subscriptions example_db
          \<and> subscription_wallets d' = subscription_wallets example_db)"
proof -
  have h1: "stripe_retrieve
      (example_env\<lparr>stripe_retrieve :=
         (\<lambda>i. Some (example_subscription\<lparr>sub_metadata := None\<rparr>))\<rparr>)
      (session_subscription (example_session\<lparr>session_metadata := Some []\<rparr>))
     = Some (example_subscription\<lparr>sub_metadata := None\<rparr>)"
    by simp
  have h2: "falsy (metadata_wallet_address
              (sub_metadata (example_subscription\<lparr>sub_metadata := None\<rparr>)))"
    by simp
  have h3: "falsy (metadata_wallet_address
              (session_metadata (example_session\<lparr>session_metadata := Some []\<rparr>)))"
    by simp
  have h4: "falsy (details_wallet_address
              (session_customer_details (example_session\<lparr>session_metadata := Some []\<rparr>)))"
    by (simp add: example_session_def)
  have ok: "\<not> connect_fails
                (example_env\<lparr>stripe_retrieve :=
                   (\<lambda>i. Some (example_subscription\<lparr>sub_metadata := None\<rparr>))\<rparr>)
            \<and> \<not> stmt_fails
                (example_env\<lparr>stripe_retrieve :=
                   (\<lambda>i. Some (example_subscription\<lparr>sub_metadata := None\<rparr>))\<rparr>) Begin"
    by (simp add: example_env_def)
  from no_wallet_aborts [OF h1 h2 h3 h4, where d = example_db] ok h1 h2 h3 h4
  show ?thesis by auto
qed

subsection \<open>The stored period end\<close>

text \<open>
  Claim C7. The row a successful checkout stores always has a period end. When
  Stripe's subscription carries a non-zero number of seconds, the stored value is that
  number times 1000 (a \<open>Date\<close> counts milliseconds). When the number is missing, or is
  \<open>0\<close> and therefore falsy, the stored value is the current time moved 30 calendar days
  ahead by \<open>setDate\<close>, which is the current time plus \<open>30 * msPerDay\<close> when local time
  has the same offset on both days.
\<close>

theorem period_end_converted_or_defaulted:
  assumes "stripe_retrieve e (session_subscription s) = Some sub"
    and "handleSubscriptionCreated e s d = (Inr u, d')"
  shows "\<exists>row t. subscriptions d' = subscriptions d @ [row]
           \<and> current_period_end row = Some t
           \<and> (\<forall>n. sub_current_period_end sub = Some n \<and> n \<noteq> 0 \<longrightarrow> t = n * 1000)
           \<and> (sub_current_period_end sub = None \<or> sub_current_period_end sub = Some 0 \<longrightarrow>
                setDate_plus_30 e (js_now e) = Date t
                \<and> (tza_local e (js_now e + tza_utc e (js_now e) + 30 * msPerDay)
                      = tza_utc e (js_now e) \<longrightarrow>
                    t = js_now e + 30 * msPerDay))"
proof -
  from handle_created_Inr [OF assms(2)] have "created_try e s d = (Inr u, d')" by simp
  from created_try_Inr [OF this] assms(1) obtain t row where
    p: "periodEndDate e (sub_current_period_end sub) = Date t"
    and r: "subscriptions d' = subscriptions d @ [row]" "current_period_end row = Some t"
    by auto
  have c1: "\<forall>n. sub_current_period_end sub = Some n \<and> n \<noteq> 0 \<longrightarrow> t = n * 1000"
    using p by (auto simp: periodEndDate_def new_Date_def split: if_splits)
  have c2: "sub_current_period_end sub = None \<or> sub_current_period_end sub = Some 0 \<longrightarrow>
              setDate_plus_30 e (js_now e) = Date t"
    using p by (auto simp: periodEndDate_def)
  have c3: "setDate_plus_30 e (js_now e) = Date t \<longrightarrow>
              tza_local e (js_now e + tza_utc e (js_now e) + 30 * msPerDay)
                 = tza_utc e (js_now e) \<longrightarrow>
              t = js_now e + 30 * msPerDay"
    by (auto simp: setDate_plus_30_def new_Date_def Let_def split: if_splits)
  from r c1 c2 c3 show ?thesis by blast
qed

text \<open>
  The example stores 1702000000 seconds as 1702000000000 milliseconds; with the
  period end left out by Stripe, the row gets the clock's 1700000000000 plus
  2592000000.
\<close>

theorem period_end_converted_or_defaulted_witness:
  "stripe_retrieve example_env (session_subscription example_session)
     = Some example_subscription
   \<and> handleSubscriptionCreated example_env example_session empty_db = (Inr (), example_db)
   \<and> map current_period_end (subscriptions example_db) = [Some (1702000000 * 1000)]
   \<and> map current_period_end (subscriptions (snd (handleSubscriptionCreated
         (example_env\<lparr>stripe_retrieve :=
            (\<lambda>i. Some (example_subscription\<lparr>sub_current_period_end := None\<rparr>))\<rparr>)
         example_session empty_db)))
       = [Some (1700000000000 + 30 * msPerDay)]"
proof -
  have g: "handleSubscriptionCreated
             (example_env\<lparr>stripe_retrieve :=
                (\<lambda>i. Some (example_subscription\<lparr>sub_current_period_end := None\<rparr>))\<rparr>)
             example_session empty_db
           = (Inr (), example_db\<lparr>subscriptions :=
                 [example_row\<lparr>current_period_end := Some 1702592000000\<rparr>]\<rparr>)"
    by (simp add: example_defs created_defs Let_def)
  have r: "stripe_retrieve
             (example_env\<lparr>stripe_retrieve :=
                (\<lambda>i. Some (example_subscription\<lparr>sub_current_period_end := None\<rparr>))\<rparr>)
             (session_subscription example_session)
           = Some (example_subscription\<lparr>sub_current_period_end := None\<rparr>)"
    by simp
  from period_end_converted_or_defaulted [OF example_retrieve example_created]
  have a: "map current_period_end (subscriptions example_db) = [Some (1702000000 * 1000)]"
    by (auto simp: example_defs)
  from period_end_converted_or_defaulted [OF r g]
  have b: "map current_period_end (subscriptions (snd (handleSubscriptionCreated
         (example_env\<lparr>stripe_retrieve :=
            (\<lambda>i. Some (example_subscription\<lparr>sub_current_period_end := None\<rparr>))\<rparr>)
         example_session empty_db)))
       = [Some (1700000000000 + 30 * msPerDay)]"
    by (simp add: g) (simp add: example_defs msPerDay_def)
  from a b example_retrieve example_created show ?thesis by simp
qed

subsection \<open>Cancellation\<close>

lemma cancel_row_cols:
  "row_id (cancel_row e x r) = row_id r"
  "stripe_customer_id (cancel_row e x r) = stripe_customer_id r"
  "stripe_subscription_id (cancel_row e x r) = stripe_subscription_id r"
  "stripe_session_id (cancel_row e x r) = stripe_session_id r"
  "customer_email (cancel_row e x r) = customer_email r"
  "current_period_end (cancel_row e x r) = current_period_end r"
  "created_at (cancel_row e x r) = created_at r"
  by (simp_all add: cancel_row_def)

lemma cancel_row_match:
  "stripe_subscription_id r = x \<Longrightarrow>
     status (cancel_row e x r) = ''cancelled'' \<and> updated_at (cancel_row e x r) = Some (db_now e)"
  by (simp add: cancel_row_def)

lemma cancel_row_other: "stripe_subscription_id r \<noteq> x \<Longrightarrow> cancel_row e x r = r"
  by (simp add: cancel_row_def)

lemma status_cancel_twice:
  "status (cancel_row e2 x (cancel_row e1 x r)) = status (cancel_row e1 x r)"
  by (simp add: cancel_row_def)

lemmas cancelled_defs = handleSubscriptionCancelled_def update_cancelled_def cancel_row_def

text \<open>
  Claim C5. Take a stored row with status \<open>active\<close> and a cancellation event that
  carries the row's external subscription id. With the UPDATE statement accepted by
  the database, the handler returns normally and the row's status is \<open>cancelled\<close>;
  handling the same event once more, at any later time, returns normally again and
  leaves every status as it was after the first delivery.
\<close>

theorem cancellation_idempotent:
  assumes "i < length (subscriptions d)"
    and "status (subscriptions d ! i) = ''active''"
    and "stripe_subscription_id (subscriptions d ! i) = sub_id subscription"
    and "\<not> stmt_fails e1 UpdateStatus" and "\<not> stmt_fails e2 UpdateStatus"
  shows "\<exists>d1 d2. handleSubscriptionCancelled e1 subscription d = (Inr (), d1)
           \<and> handleSubscriptionCancelled e2 subscription d1 = (Inr (), d2)
           \<and> status (subscriptions d1 ! i) = ''cancelled''
           \<and> status (subscriptions d2 ! i) = ''cancelled''
           \<and> map status (subscriptions d2) = map status (subscriptions d1)
           \<and> subscription_wallets d2 = subscription_wallets d"
  using assms
  by (simp add: handleSubscriptionCancelled_def update_cancelled_def cancel_row_match
                status_cancel_twice cancel_row_cols)

text \<open>
  The subscription of the example is cancelled, and cancelled again a second later.
\<close>

theorem cancellation_idempotent_witness:
  "(0::nat) < length (subscriptions example_db)
   \<and> status (subscriptions example_db ! 0) = ''active''
   \<and> stripe_subscription_id (subscriptions example_db ! 0) = sub_id example_subscription
   \<and> \<not> stmt_fails example_env UpdateStatus
   \<and> \<not> stmt_fails (example_env\<lparr>db_now := 1700000001123\<rparr>) UpdateStatus
   \<and> fst (handleSubscriptionCancelled example_env example_subscription example_db) = Inr ()
   \<and> map status (subscriptions
         (snd (handleSubscriptionCancelled example_env example_subscription example_db)))
       = [''cancelled'']
   \<and> fst (handleSubscriptionCancelled (example_env\<lparr>db_now := 1700000001123\<rparr>)
           example_subscription
           (snd (handleSubscriptionCancelled example_env example_subscription example_db)))
       = Inr ()
   \<and> map status (subscriptions
         (snd (handleSubscriptionCancelled (example_env\<lparr>db_now := 1700000001123\<rparr>)
                example_subscription
                (snd (handleSubscriptionCancelled example_env example_subscription
                        example_db)))))
       = [''cancelled'']"
proof -
  have h1: "(0::nat) < length (subscriptions example_db)"
    by (simp add: example_defs)
  have h2: "status (subscriptions example_db ! 0) = ''active''"
    by (simp add: example_defs)
  have h3: "stripe_subscription_id (subscriptions example_db ! 0) = sub_id example_subscription"
    by (simp add: example_defs)
  have h4: "\<not> stmt_fails example_env UpdateStatus"
    by (simp add: example_defs)
  have h5: "\<not> stmt_fails (example_env\<lparr>db_now := 1700000001123\<rparr>) UpdateStatus"
    by (simp add: example_defs)
  from cancellation_idempotent [OF h1 h2 h3 h4 h5] h1 h2 h3 h4 h5
  show ?thesis
    by (simp add: cancelled_defs example_defs)
qed

text \<open>
  Claim C6. A cancellation event whose external subscription id no stored row
  carries is handled without an error (the UPDATE statement being accepted), and the
  database afterwards is the database before: no row is added and none is changed.
\<close>

theorem cancellation_unknown_noop:
  assumes "\<forall>r \<in> set (subscriptions d). stripe_subscription_id r \<noteq> sub_id subscription"
    and "\<not> stmt_fails e UpdateStatus"
  shows "handleSubscriptionCancelled e subscription d = (Inr (), d)"
proof -
  from assms(1)
  have "map (cancel_row e (sub_id subscription)) (subscriptions d) = subscriptions d"
    by (simp add: map_idI cancel_row_other)
  with assms(2) show ?thesis
    by (simp add: handleSubscriptionCancelled_def update_cancelled_def)
qed

text \<open>An event for \<open>sub_404\<close> against the database that only knows \<open>sub_1\<close>.\<close>

theorem cancellation_unknown_noop_witness:
  "map stripe_subscription_id (subscriptions example_db) = [''sub_1'']
   \<and> sub_id (example_subscription\<lparr>sub_id := ''sub_404''\<rparr>) = ''sub_404''
   \<and> \<not> stmt_fails example_env UpdateStatus
   \<and> handleSubscriptionCancelled example_env (example_subscription\<lparr>sub_id := ''sub_404''\<rparr>)
         example_db = (Inr (), example_db)"
proof -
  have h1: "\<forall>r \<in> set (subscriptions example_db).
      stripe_subscription_id r \<noteq> sub_id (example_subscription\<lparr>sub_id := ''sub_404''\<rparr>)"
    by (simp add: example_defs)
  have h2: "\<not> stmt_fails example_env UpdateStatus"
    by (simp add: example_defs)
  have h3: "map stripe_subscription_id (subscriptions example_db) = [''sub_1'']"
    by (simp add: example_defs)
  from cancellation_unknown_noop [OF h1 h2] h2 h3 show ?thesis by simp
qed

text \<open>
  Claim C9. The UPDATE of a cancellation event reaches every row that carries the
  event's external subscription id, however many there are: each of them gets status
  \<open>cancelled\<close> and a new \<open>updated_at\<close> and keeps all its other columns. Every other
  row of \<open>subscriptions\<close> is unchanged, the table keeps its length, and
  \<open>subscription_wallets\<close> and the sequences are untouched.
\<close>

theorem cancellation_frame:
  assumes "\<not> stmt_fails e UpdateStatus"
  shows "\<exists>d'. handleSubscriptionCancelled e subscription d = (Inr (), d')
           \<and> subscription_wallets d' = subscription_wallets d
           \<and> subscriptions_id_seq d' = subscriptions_id_seq d
           \<and> subscription_wallets_id_seq d' = subscription_wallets_id_seq d
           \<and> length (subscriptions d') = length (subscriptions d)
           \<and> (\<forall>i < length (subscriptions d).
                 (stripe_subscription_id (subscriptions d ! i) = sub_id subscription \<longrightarrow>
                    subscriptions d' ! i =
                      (subscriptions d ! i)\<lparr>status := ''cancelled'',
                                             updated_at := Some (db_now e)\<rparr>)
                 \<and> (stripe_subscription_id (subscriptions d ! i) \<noteq> sub_id subscription \<longrightarrow>
                    subscriptions d' ! i = subscriptions d ! i))"
  using assms
  by (simp add: handleSubscriptionCancelled_def update_cancelled_def cancel_row_def)

text \<open>
  Three rows, the first and the last for \<open>sub_1\<close> (a checkout delivered twice), the
  middle one for \<open>sub_2\<close> and already expired: one event for \<open>sub_1\<close> cancels the two
  and leaves the middle row alone.
\<close>

theorem cancellation_frame_witness:
  "\<not> stmt_fails (example_env\<lparr>db_now := 1700000009000\<rparr>) UpdateStatus
   \<and> handleSubscriptionCancelled (example_env\<lparr>db_now := 1700000009000\<rparr>) example_subscription
       (example_db\<lparr>subscriptions :=
          [example_row,
           example_row\<lparr>row_id := 2, stripe_subscription_id := ''sub_2''\<rparr>,
           example_row\<lparr>row_id := 3\<rparr>]\<rparr>)
     = (Inr (),
        example_db\<lparr>subscriptions :=
          [example_row\<lparr>status := ''cancelled'', updated_at := Some 1700000009000\<rparr>,
           example_row\<lparr>row_id := 2, stripe_subscription_id := ''sub_2''\<rparr>,
           example_row\<lparr>row_id := 3, status := ''cancelled'',
                        updated_at := Some 1700000009000\<rparr>]\<rparr>)"
proof -
  have h: "\<not> stmt_fails (example_env\<lparr>db_now := 1700000009000\<rparr>) UpdateStatus"
    by (simp add: example_defs)
  from cancellation_frame [OF h, where subscription = example_subscription
         and d = "example_db\<lparr>subscriptions :=
          [example_row,
           example_row\<lparr>row_id := 2, stripe_subscription_id := ''sub_2''\<rparr>,
           example_row\<lparr>row_id := 3\<rparr>]\<rparr>"] h
  show ?thesis
    by (simp add: cancelled_defs example_defs)
qed

subsection \<open>The row the status query looks at\<close>

lemma desc_le_refl: "desc_le a a"
  by (cases a) auto

lemma desc_le_total: "desc_le a b \<or> desc_le b a"
  by (cases a; cases b) auto

lemma desc_le_trans: "desc_le a b \<Longrightarrow> desc_le b c \<Longrightarrow> desc_le a c"
  by (cases a; cases b; cases c) auto

lemma order_by_first:
  "xs \<noteq> [] \<Longrightarrow>
     \<exists>x rest. order_by_created_at_desc xs = x # rest \<and> x \<in> set xs
       \<and> (\<forall>y \<in> set xs. desc_le (created_at x) (created_at y))"
proof (induction xs)
  case Nil
  then show ?case by simp
next
  case (Cons a xs)
  show ?case
  proof (cases "xs = []")
    case True
    then show ?thesis by (simp add: desc_le_refl)
  next
    case False
    with Cons.IH obtain h t where
      h: "order_by_created_at_desc xs = h # t" "h \<in> set xs"
         "\<forall>y \<in> set xs. desc_le (created_at h) (created_at y)"
      by blast
    show ?thesis
    proof (cases "desc_le (created_at a) (created_at h)")
      case True
      with h show ?thesis
        by (auto simp: desc_le_refl intro: desc_le_trans)
    next
      case False
      with desc_le_total [of "created_at a" "created_at h"]
      have "desc_le (created_at h) (created_at a)" by simp
      with False h show ?thesis by auto
    qed
  qed
qed

lemma active_for_wallet_iff:
  "r \<in> set (active_for_wallet d w) \<longleftrightarrow>
     r \<in> set (subscriptions d) \<and> status r = ''active''
     \<and> (\<exists>l \<in> set (subscription_wallets d).
           subscription_id l = Some (row_id r) \<and> wallet_address l = w)"
  by (auto simp: active_for_wallet_def split: if_splits)

lemma select_active_in:
  assumes "select_active d w = r # rest"
  shows "rest = [] \<and> r \<in> set (active_for_wallet d w)
         \<and> (\<forall>y \<in> set (active_for_wallet d w). desc_le (created_at r) (created_at y))"
proof -
  from assms have ne: "active_for_wallet d w \<noteq> []"
    by (auto simp: select_active_def)
  from order_by_first [OF ne] obtain x t where
    "order_by_created_at_desc (active_for_wallet d w) = x # t"
    "x \<in> set (active_for_wallet d w)"
    "\<forall>y \<in> set (active_for_wallet d w). desc_le (created_at x) (created_at y)"
    by blast
  with assms show ?thesis by (simp add: select_active_def)
qed

lemma select_active_most_recent:
  assumes "r \<in> set (active_for_wallet d w)" and "created_at r = Some c"
    and "\<forall>r' \<in> set (active_for_wallet d w).
           r' \<noteq> r \<longrightarrow> (\<exists>c'. created_at r' = Some c' \<and> c' < c)"
  shows "select_active d w = [r]"
proof -
  from assms(1) have ne: "active_for_wallet d w \<noteq> []" by auto
  from order_by_first [OF ne] obtain x t where
    x: "order_by_created_at_desc (active_for_wallet d w) = x # t"
       "x \<in> set (active_for_wallet d w)"
       "\<forall>y \<in> set (active_for_wallet d w). desc_le (created_at x) (created_at y)"
    by blast
  have "x = r"
  proof (rule ccontr)
    assume "x \<noteq> r"
    with assms(3) x(2) obtain c' where "created_at x = Some c'" "c' < c" by blast
    moreover from x(3) assms(1) have "desc_le (created_at x) (created_at r)" by blast
    ultimately show False using assms(2) by simp
  qed
  with x(1) show ?thesis by (simp add: select_active_def)
qed

subsection \<open>Expiry is decided when the status is read\<close>

text \<open>
  Claim C2. Let a row be linked to the wallet, have status \<open>active\<close>, be created
  later than every other row linked to that wallet, and have a period end before the
  current time. Then the status route (its query being answered) responds
  \<open>{hasSubscription: false, status: "expired"}\<close>. And whenever the route responds with
  \<open>hasSubscription: true\<close>, there is an active row linked to the wallet whose period end
  is later than the current time: the stored status alone never yields entitlement.
\<close>

theorem stale_active_reports_expired:
  "(\<not> stmt_fails e SelectActive
      \<and> r \<in> set (subscriptions d) \<and> status r = ''active''
      \<and> l \<in> set (subscription_wallets d)
      \<and> subscription_id l = Some (row_id r) \<and> wallet_address l = w
      \<and> created_at r = Some c
      \<and> (\<forall>r' \<in> set (subscriptions d). \<forall>l' \<in> set (subscription_wallets d).
            subscription_id l' = Some (row_id r') \<and> wallet_address l' = w \<and> r' \<noteq> r \<longrightarrow>
            (\<exists>c'. created_at r' = Some c' \<and> c' < c))
      \<and> current_period_end r = Some t \<and> t < js_now e
    \<longrightarrow> subscription_status e d w =
          Json200 \<lparr>hasSubscription = False, json_status = ''expired'',
                   expiresAt = None, customerEmail = None\<rparr>)
   \<and> (subscription_status e d w = Json200 j \<and> hasSubscription j \<longrightarrow>
        (\<exists>r \<in> set (subscriptions d). status r = ''active''
           \<and> (\<exists>l \<in> set (subscription_wallets d).
                 subscription_id l = Some (row_id r) \<and> wallet_address l = w)
           \<and> js_now e < periodEnd_of (current_period_end r)
           \<and> expiresAt j = current_period_end r))"
proof (intro conjI impI)
  assume a: "\<not> stmt_fails e SelectActive
      \<and> r \<in> set (subscriptions d) \<and> status r = ''active''
      \<and> l \<in> set (subscription_wallets d)
      \<and> subscription_id l = Some (row_id r) \<and> wallet_address l = w
      \<and> created_at r = Some c
      \<and> (\<forall>r' \<in> set (subscriptions d). \<forall>l' \<in> set (subscription_wallets d).
            subscription_id l' = Some (row_id r') \<and> wallet_address l' = w \<and> r' \<noteq> r \<longrightarrow>
            (\<exists>c'. created_at r' = Some c' \<and> c' < c))
      \<and> current_period_end r = Some t \<and> t < js_now e"
  then have m: "r \<in> set (active_for_wallet d w)"
    by (auto simp: active_for_wallet_iff)
  from a have "\<forall>r' \<in> set (active_for_wallet d w). r' \<noteq> r \<longrightarrow>
                 (\<exists>c'. created_at r' = Some c' \<and> c' < c)"
    by (auto simp: active_for_wallet_iff)
  with m a have "select_active d w = [r]"
    by (intro select_active_most_recent) auto
  with a show "subscription_status e d w =
          Json200 \<lparr>hasSubscription = False, json_status = ''expired'',
                   expiresAt = None, customerEmail = None\<rparr>"
    by (simp add: subscription_status_def)
next
  assume b: "subscription_status e d w = Json200 j \<and> hasSubscription j"
  then obtain x rest where s: "select_active d w = x # rest"
    by (cases "select_active d w") (auto simp: subscription_status_def split: if_splits)
  from select_active_in [OF s] have "x \<in> set (active_for_wallet d w)" by simp
  moreover from b s have "js_now e < periodEnd_of (current_period_end x)
                          \<and> expiresAt j = current_period_end x"
    by (auto simp: subscription_status_def split: if_splits)
  ultimately show "\<exists>r \<in> set (subscriptions d). status r = ''active''
           \<and> (\<exists>l \<in> set (subscription_wallets d).
                 subscription_id l = Some (row_id r) \<and> wallet_address l = w)
           \<and> js_now e < periodEnd_of (current_period_end r)
           \<and> expiresAt j = current_period_end r"
    by (auto simp: active_for_wallet_iff)
qed

text \<open>
  The row of the example still reads \<open>active\<close> when the wallet is queried at time
  1800000000000, long after its period end 1702000000000.
\<close>

theorem stale_active_reports_expired_witness:
  "\<not> stmt_fails (example_env\<lparr>js_now := 1800000000000\<rparr>) SelectActive
   \<and> example_row \<in> set (subscriptions example_db) \<and> status example_row = ''active''
   \<and> example_link \<in> set (subscription_wallets example_db)
   \<and> subscription_id example_link = Some (row_id example_row)
   \<and> wallet_address example_link = ''0xABC''
   \<and> created_at example_row = Some 1700000000123
   \<and> current_period_end example_row = Some 1702000000000
   \<and> 1702000000000 < js_now (example_env\<lparr>js_now := 1800000000000\<rparr>)
   \<and> subscription_status (example_env\<lparr>js_now := 1800000000000\<rparr>) example_db ''0xABC''
       = Json200 \<lparr>hasSubscription = False, json_status = ''expired'',
                  expiresAt = None, customerEmail = None\<rparr>"
  using stale_active_reports_expired
          [where e = "example_env\<lparr>js_now := 1800000000000\<rparr>" and r = example_row
             and d = example_db and l = example_link and w = "''0xABC''"
             and c = 1700000000123 and t = 1702000000000]
  by (simp add: example_defs)

subsection \<open>The comparison with the clock\<close>

text \<open>
  Claim C10. For the row the query returns, the route reports entitlement exactly
  when the stored period end is strictly later than the current time: a period end
  later than now gives the \<open>active\<close> body with that period end and the customer's
  email; a period end equal to or earlier than now gives the \<open>expired\<close> body; and a
  NULL period end, which \<open>new Date\<close> reads as the epoch, gives the \<open>expired\<close> body too
  (the clock not being set before 1970).
\<close>

theorem entitlement_comparison_strict:
  assumes "\<not> stmt_fails e SelectActive" and "select_active d w = r # rest"
  shows "(\<forall>t. current_period_end r = Some t \<and> js_now e < t \<longrightarrow>
            subscription_status e d w =
              Json200 \<lparr>hasSubscription = True, json_status = ''active'',
                       expiresAt = Some t, customerEmail = Some (customer_email r)\<rparr>)
         \<and> (\<forall>t. current_period_end r = Some t \<and> t \<le> js_now e \<longrightarrow>
            subscription_status e d w =
              Json200 \<lparr>hasSubscription = False, json_status = ''expired'',
                       expiresAt = None, customerEmail = None\<rparr>)
         \<and> (current_period_end r = None \<and> 0 \<le> js_now e \<longrightarrow>
            subscription_status e d w =
              Json200 \<lparr>hasSubscription = False, json_status = ''expired'',
                       expiresAt = None, customerEmail = None\<rparr>)"
  using assms by (auto simp: subscription_status_def)

text \<open>
  The example queried at the very millisecond its period ends, one millisecond
  earlier, and with the period end set to NULL.
\<close>

theorem entitlement_comparison_strict_witness:
  "\<not> stmt_fails example_env SelectActive
   \<and> select_active example_db ''0xABC'' = [example_row]
   \<and> subscription_status (example_env\<lparr>js_now := 1702000000000\<rparr>) example_db ''0xABC''
       = Json200 \<lparr>hasSubscription = False, json_status = ''expired'',
                  expiresAt = None, customerEmail = None\<rparr>
   \<and> subscription_status (example_env\<lparr>js_now := 1701999999999\<rparr>) example_db ''0xABC''
       = Json200 \<lparr>hasSubscription = True, json_status = ''active'',
                  expiresAt = Some 1702000000000, customerEmail = Some ''a@b.com''\<rparr>
   \<and> select_active (example_db\<lparr>subscriptions := [example_row\<lparr>current_period_end := None\<rparr>]\<rparr>)
         ''0xABC'' = [example_row\<lparr>current_period_end := None\<rparr>]
   \<and> subscription_status example_env
         (example_db\<lparr>subscriptions := [example_row\<lparr>current_period_end := None\<rparr>]\<rparr>) ''0xABC''
       = Json200 \<lparr>hasSubscription = False, json_status = ''expired'',
                  expiresAt = None, customerEmail = None\<rparr>"
proof -
  have f0: "\<not> stmt_fails example_env SelectActive"
    by (simp add: example_defs)
  have f1: "\<not> stmt_fails (example_env\<lparr>js_now := 1702000000000\<rparr>) SelectActive"
    by (simp add: example_defs)
  have f2: "\<not> stmt_fails (example_env\<lparr>js_now := 1701999999999\<rparr>) SelectActive"
    by (simp add: example_defs)
  have s1: "select_active example_db ''0xABC'' = example_row # []"
    by (simp add: example_defs select_active_def active_for_wallet_def)
  have s2: "select_active
              (example_db\<lparr>subscriptions := [example_row\<lparr>current_period_end := None\<rparr>]\<rparr>)
              ''0xABC'' = example_row\<lparr>current_period_end := None\<rparr> # []"
    by (simp add: example_defs select_active_def active_for_wallet_def)
  from entitlement_comparison_strict [OF f1 s1]
  have a: "subscription_status (example_env\<lparr>js_now := 1702000000000\<rparr>) example_db ''0xABC''
       = Json200 \<lparr>hasSubscription = False, json_status = ''expired'',
                  expiresAt = None, customerEmail = None\<rparr>"
    by (simp add: example_defs)
  from entitlement_comparison_strict [OF f2 s1]
  have b: "subscription_status (example_env\<lparr>js_now := 1701999999999\<rparr>) example_db ''0xABC''
       = Json200 \<lparr>hasSubscription = True, json_status = ''active'',
                  expiresAt = Some 1702000000000, customerEmail = Some ''a@b.com''\<rparr>"
    by (simp add: example_defs)
  from entitlement_comparison_strict [OF f0 s2]
  have c: "subscription_status example_env
         (example_db\<lparr>subscriptions := [example_row\<lparr>current_period_end := None\<rparr>]\<rparr>) ''0xABC''
       = Json200 \<lparr>hasSubscription = False, json_status = ''expired'',
                  expiresAt = None, customerEmail = None\<rparr>"
    by (simp add: example_defs)
  from f0 s1 s2 a b c show ?thesis by simp
qed

subsection \<open>A failed reconciliation is not acknowledged\<close>

text \<open>
  Claim C8. For an event that passed signature verification: when the handler of the
  event throws, the route handler sends neither \<open>{received: true}\<close> nor any other
  response; the error leaves the route handler as it was thrown, and the provider
  sees the framework's status 500, which is not a 2xx status. \<open>{received: true}\<close> is
  sent, and status 200 seen, only when the handler returned normally. A checkout
  event fails in this way when the database cannot be reached, when Stripe's lookup
  of the subscription fails, when no wallet address is found, or when \<open>BEGIN\<close>, either
  INSERT or \<open>COMMIT\<close> fails; a cancellation event fails in this way when its UPDATE
  fails.
\<close>

theorem webhook_failure_not_acknowledged:
  "(reconcile e ev d = (Inl err, d') \<longrightarrow>
      stripe_webhook e (Some ev) d = (Thrown err, d')
      \<and> fst (stripe_webhook e (Some ev) d) \<noteq> JsonReceived True
      \<and> http_status (fst (stripe_webhook e (Some ev) d)) = None
      \<and> provider_sees (fst (stripe_webhook e (Some ev) d)) = 500
      \<and> \<not> (200 \<le> provider_sees (fst (stripe_webhook e (Some ev) d))
            \<and> provider_sees (fst (stripe_webhook e (Some ev) d)) < 300))
   \<and> (fst (stripe_webhook e (Some ev) d) = JsonReceived True \<longrightarrow>
        fst (reconcile e ev d) = Inr ())
   \<and> (200 \<le> provider_sees (fst (stripe_webhook e (Some ev) d))
        \<and> provider_sees (fst (stripe_webhook e (Some ev) d)) < 300 \<longrightarrow>
        fst (reconcile e ev d) = Inr ())
   \<and> (ev = CheckoutSessionCompleted s
        \<and> (connect_fails e \<or> stmt_fails e Begin
            \<or> stripe_retrieve e (session_subscription s) = None
            \<or> (\<exists>sub. stripe_retrieve e (session_subscription s) = Some sub
                  \<and> falsy (walletAddress sub s))
            \<or> stmt_fails e InsertSubscription \<or> stmt_fails e InsertWallet
            \<or> stmt_fails e Commit) \<longrightarrow>
        (\<exists>err'. fst (stripe_webhook e (Some ev) d) = Thrown err')
        \<and> provider_sees (fst (stripe_webhook e (Some ev) d)) = 500)
   \<and> (ev = CustomerSubscriptionDeleted subscription \<and> stmt_fails e UpdateStatus \<longrightarrow>
        fst (stripe_webhook e (Some ev) d) = Thrown PersistenceError
        \<and> provider_sees (fst (stripe_webhook e (Some ev) d)) = 500)"
proof -
  have A: "reconcile e ev d = (Inl err, d') \<longrightarrow>
      stripe_webhook e (Some ev) d = (Thrown err, d')
      \<and> fst (stripe_webhook e (Some ev) d) \<noteq> JsonReceived True
      \<and> http_status (fst (stripe_webhook e (Some ev) d)) = None
      \<and> provider_sees (fst (stripe_webhook e (Some ev) d)) = 500
      \<and> \<not> (200 \<le> provider_sees (fst (stripe_webhook e (Some ev) d))
            \<and> provider_sees (fst (stripe_webhook e (Some ev) d)) < 300)"
    by (simp add: stripe_webhook_def)
  have B: "fst (stripe_webhook e (Some ev) d) = JsonReceived True \<longrightarrow>
        fst (reconcile e ev d) = Inr ()"
    by (auto simp: stripe_webhook_def split: prod.splits sum.splits)
  have B': "200 \<le> provider_sees (fst (stripe_webhook e (Some ev) d))
        \<and> provider_sees (fst (stripe_webhook e (Some ev) d)) < 300 \<longrightarrow>
        fst (reconcile e ev d) = Inr ()"
    by (auto simp: stripe_webhook_def split: prod.splits sum.splits)
  have C: "ev = CheckoutSessionCompleted s
        \<and> (connect_fails e \<or> stmt_fails e Begin
            \<or> stripe_retrieve e (session_subscription s) = None
            \<or> (\<exists>sub. stripe_retrieve e (session_subscription s) = Some sub
                  \<and> falsy (walletAddress sub s))
            \<or> stmt_fails e InsertSubscription \<or> stmt_fails e InsertWallet
            \<or> stmt_fails e Commit) \<longrightarrow>
        (\<exists>err'. fst (stripe_webhook e (Some ev) d) = Thrown err')
        \<and> provider_sees (fst (stripe_webhook e (Some ev) d)) = 500"
  proof
    assume a: "ev = CheckoutSessionCompleted s
        \<and> (connect_fails e \<or> stmt_fails e Begin
            \<or> stripe_retrieve e (session_subscription s) = None
            \<or> (\<exists>sub. stripe_retrieve e (session_subscription s) = Some sub
                  \<and> falsy (walletAddress sub s))
            \<or> stmt_fails e InsertSubscription \<or> stmt_fails e InsertWallet
            \<or> stmt_fails e Commit)"
    with handle_created_steps_fail [of e s d] obtain err' dx where
      "handleSubscriptionCreated e s d = (Inl err', dx)" by blast
    with a show "(\<exists>err'. fst (stripe_webhook e (Some ev) d) = Thrown err')
        \<and> provider_sees (fst (stripe_webhook e (Some ev) d)) = 500"
      by (simp add: stripe_webhook_def reconcile_def)
  qed
  have D: "ev = CustomerSubscriptionDeleted subscription \<and> stmt_fails e UpdateStatus \<longrightarrow>
        fst (stripe_webhook e (Some ev) d) = Thrown PersistenceError
        \<and> provider_sees (fst (stripe_webhook e (Some ev) d)) = 500"
    by (simp add: stripe_webhook_def reconcile_def handleSubscriptionCancelled_def)
  show ?thesis
    by (rule conjI [OF A conjI [OF B conjI [OF B' conjI [OF C D]]]])
qed

text \<open>
  A checkout event for \<open>sub_9\<close>, which Stripe does not know: the lookup fails, the
  route handler throws the error instead of answering, and the provider sees 500.
\<close>

theorem webhook_failure_not_acknowledged_witness:
  "reconcile example_env
      (CheckoutSessionCompleted (example_session\<lparr>session_subscription := Some ''sub_9''\<rparr>))
      example_db = (Inl ProviderError, example_db)
   \<and> stripe_webhook example_env
       (Some (CheckoutSessionCompleted
                (example_session\<lparr>session_subscription := Some ''sub_9''\<rparr>)))
       example_db = (Thrown ProviderError, example_db)
   \<and> provider_sees (fst (stripe_webhook example_env
       (Some (CheckoutSessionCompleted
                (example_session\<lparr>session_subscription := Some ''sub_9''\<rparr>)))
       example_db)) = 500
   \<and> provider_sees (fst (stripe_webhook example_env
       (Some (CheckoutSessionCompleted example_session)) empty_db)) = 200"
proof -
  have h: "reconcile example_env
      (CheckoutSessionCompleted (example_session\<lparr>session_subscription := Some ''sub_9''\<rparr>))
      example_db = (Inl ProviderError, example_db)"
    by (simp add: reconcile_def handleSubscriptionCreated_def created_try_def rollback_def
                  example_defs)
  have k: "provider_sees (fst (stripe_webhook example_env
       (Some (CheckoutSessionCompleted example_session)) empty_db)) = 200"
    by (simp add: stripe_webhook_def reconcile_def example_created)
  from webhook_failure_not_acknowledged
         [where e = example_env and d = example_db and err = ProviderError and d' = example_db
            and ev = "CheckoutSessionCompleted
                        (example_session\<lparr>session_subscription := Some ''sub_9''\<rparr>)"] h k
  show ?thesis by simp
qed

end
